theory Spec2Isabelle
  imports Complex_Main "HOL-Library.Multiset" "HOL-Library.List_Lexorder" "HOL-Library.Log_Nat"
begin

section \<open>Numbers\<close>

text \<open>
  The numbers of the language are IEEE 754 double-precision numbers. A finite double is
  modelled by the real number it denotes, and an arithmetic operation of the code by
  the exact operation followed by \<open>round_double\<close>: rounding to the nearest double, ties
  to the even significand, with a significand of 53 bits and gradual underflow below
  \<open>2\<^sup>-\<^sup>1\<^sup>0\<^sup>2\<^sup>2\<close>. A decimal literal of the source such as \<^verbatim>\<open>0.4\<close> is \<open>round_double 0.4\<close>.

  \<^verbatim>\<open>NaN\<close>, the infinities and the sign of zero are not modelled: no operation of the
  modelled code divides by zero, data are finite doubles (\<open>is_double\<close>), and where a
  result of magnitude \<open>2\<^sup>1\<^sup>0\<^sup>2\<^sup>4\<close> or more could arise a statement bounds its inputs.
  Comparisons of doubles are comparisons of the reals they denote.
\<close>

text \<open>\<open>2\<^sup>e\<close> for an integer \<open>e\<close>.\<close>

definition pow2 :: "int \<Rightarrow> real" where
  "pow2 e = (if 0 \<le> e then 2 ^ nat e else 1 / 2 ^ nat (- e))"

text \<open>The exponent of a positive number: the \<open>e\<close> with \<open>2\<^sup>e \<le> x < 2\<^sup>e\<^sup>+\<^sup>1\<close>.\<close>

definition ilog2 :: "real \<Rightarrow> int" where
  "ilog2 x = (if 1 \<le> x then bitlen \<lfloor>x\<rfloor> - 1 else - bitlen (\<lceil>1 / x\<rceil> - 1))"

text \<open>The nearest integer, a tie going to the even one.\<close>

definition round_half_even :: "real \<Rightarrow> int" where
  "round_half_even x =
     (let n = \<lfloor>x\<rfloor>; r = x - of_int n
      in if r < 1 / 2 then n else if 1 / 2 < r then n + 1 else if even n then n else n + 1)"

definition round_double :: "real \<Rightarrow> real" where
  "round_double x =
     (if x = 0 then 0
      else (let e = max (ilog2 \<bar>x\<bar>) (- 1022); q = pow2 (e - 52)
            in of_int (round_half_even (x / q)) * q))"



text \<open>The operators \<^verbatim>\<open>+\<close>, \<^verbatim>\<open>*\<close> and \<^verbatim>\<open>/\<close> on numbers.\<close>

definition fadd :: "real \<Rightarrow> real \<Rightarrow> real" where
  "fadd x y = round_double (x + y)"

definition fmul :: "real \<Rightarrow> real \<Rightarrow> real" where
  "fmul x y = round_double (x * y)"



text \<open>The rounding is to a nearest integer, and the exponent is the right one.\<close>

lemma round_half_even_near: "\<bar>real_of_int (round_half_even x) - x\<bar> \<le> 1 / 2"
  by (auto simp: round_half_even_def Let_def)

lemma bitlen_pos: "0 < n \<Longrightarrow> 1 \<le> bitlen n"
  by (simp add: bitlen_alt_def)

lemma ilog2_bounds:
  assumes "0 < x"
  shows "pow2 (ilog2 x) \<le> x \<and> x < pow2 (ilog2 x + 1)"
proof (cases "1 \<le> x")
  case True
  define n where "n = \<lfloor>x\<rfloor>"
  from True have n: "0 < n" by (simp add: n_def)
  from bitlen_bounds [OF n] have lo: "2 ^ nat (bitlen n - 1) \<le> n" and hi: "n < 2 ^ nat (bitlen n)"
    by simp_all
  from bitlen_pos [OF n] have b: "1 \<le> bitlen n" .
  have "real_of_int (2 ^ nat (bitlen n - 1)) \<le> real_of_int n"
    using lo by linarith
  also have "\<dots> \<le> x" by (simp add: n_def)
  finally have 1: "pow2 (bitlen n - 1) \<le> x"
    using b by (simp add: pow2_def)
  from hi have "n + 1 \<le> 2 ^ nat (bitlen n)" by simp
  then have "real_of_int (n + 1) \<le> real_of_int (2 ^ nat (bitlen n))"
    by linarith
  moreover have "x < real_of_int (n + 1)" by (simp add: n_def)
  ultimately have 2: "x < pow2 (bitlen n)"
    using b by (simp add: pow2_def)
  from 1 2 True show ?thesis by (simp add: ilog2_def n_def)
next
  case False
  define m where "m = \<lceil>1 / x\<rceil> - 1"
  from False assms have "1 < 1 / x" by simp
  then have "1 < \<lceil>1 / x\<rceil>" by linarith
  then have m: "0 < m" by (simp add: m_def)
  from bitlen_bounds [OF m] have lo: "2 ^ nat (bitlen m - 1) \<le> m" and hi: "m < 2 ^ nat (bitlen m)"
    by simp_all
  from bitlen_pos [OF m] have b: "1 \<le> bitlen m" .
  have "1 / x \<le> real_of_int (m + 1)" by (simp add: m_def)
  also have "\<dots> \<le> real_of_int (2 ^ nat (bitlen m))" using hi by linarith
  finally have "1 / x \<le> 2 ^ nat (bitlen m)" by simp
  with assms have 1: "1 / 2 ^ nat (bitlen m) \<le> x"
    by (simp add: field_simps)
  have "real_of_int (2 ^ nat (bitlen m - 1)) \<le> real_of_int m" using lo by linarith
  also have "real_of_int m < 1 / x" unfolding m_def by linarith
  finally have "2 ^ nat (bitlen m - 1) < 1 / x" by simp
  with assms have 2: "x < 1 / 2 ^ nat (bitlen m - 1)"
    by (simp add: field_simps)
  have p1: "pow2 (- bitlen m) = 1 / 2 ^ nat (bitlen m)"
    using b by (simp add: pow2_def)
  have p2: "pow2 (1 - bitlen m) = 1 / 2 ^ nat (bitlen m - 1)"
  proof (cases "bitlen m = 1")
    case True
    then show ?thesis by (simp add: pow2_def)
  next
    case False
    with b have "1 < bitlen m" by simp
    moreover from this have "nat (bitlen m - 1) = nat (- (1 - bitlen m))" by simp
    ultimately show ?thesis by (simp add: pow2_def)
  qed
  from 1 2 False show ?thesis by (simp add: ilog2_def m_def [symmetric] p1 p2)
qed




section \<open>Data model\<close>

text \<open>
  Prices, rating averages, popularity and scores are numbers of the language (section
  Numbers). Counters that start at zero and are only incremented are natural numbers.
  Strings are \<^typ>\<open>string\<close>.
\<close>

text \<open>\<^verbatim>\<open>ingredientSchema\<close> of models/Menu.js: the fields the services read.\<close>

record ingredient =
  ing_name :: string
  ing_allergens :: "string list"

text \<open>
  The \<^verbatim>\<open>rating\<close> sub-document of a menu item:
  \<^verbatim>\<open>rating: { average: {type: Number, default: 0}, count: {type: Number, default: 0} }\<close>.
\<close>

record rating =
  average :: real
  rcount :: nat

text \<open>The \<^verbatim>\<open>dietary\<close> sub-document of a menu item.\<close>

record dietary_flags =
  vegetarian :: bool
  vegan :: bool
  glutenFree :: bool
  dairyFree :: bool
  spicy :: bool

text \<open>\<^verbatim>\<open>menuItemSchema\<close> of models/Menu.js.\<close>

record menu_item =
  item_name :: string
  item_category :: string
  item_price :: real
  item_ingredients :: "ingredient list"
  item_dietary :: dietary_flags
  item_availability :: string
  item_rating :: rating
  item_popularity :: real

section \<open>Rating updates (models/Menu.js)\<close>

















section \<open>Analytics cache (analytics routes)\<close>

text \<open>
  \<^verbatim>\<open>
  let analyticsCache = { salesData: null, popularItems: null, customerInsights: null,
                         lastUpdated: null };
  const CACHE_EXPIRY = 5 * 60 * 1000;
  \<close>
  The aggregates are values of an arbitrary type \<open>'p\<close>; \<^verbatim>\<open>null\<close> is \<open>None\<close>.
  Times are the milliseconds of \<^verbatim>\<open>Date.now()\<close>.
\<close>

record 'p analyticsCache =
  salesData :: "'p option"
  popularItems :: "'p option"
  customerInsights :: "'p option"
  lastUpdated :: "int option"

definition CACHE_EXPIRY :: int where
  "CACHE_EXPIRY = 5 * 60 * 1000"

definition empty_cache :: "'p analyticsCache" where
  "empty_cache = \<lparr>salesData = None, popularItems = None, customerInsights = None,
                   lastUpdated = None\<rparr>"

text \<open>The values a property read of the cache object can give, and \<^verbatim>\<open>{}\<close>.\<close>

datatype 'p js_value = Undefined | Null | Aggregate 'p | Timestamp int | EmptyObject

fun of_nullable :: "('a \<Rightarrow> 'p js_value) \<Rightarrow> 'a option \<Rightarrow> 'p js_value" where
  "of_nullable f None = Null"
| "of_nullable f (Some x) = f x"

text \<open>
  \<^verbatim>\<open>analyticsCache[key]\<close>: the object has the four properties of its literal; reading
  any other name (the route paths, which start with a slash, among them) gives
  \<^verbatim>\<open>undefined\<close>.
\<close>

definition cache_get :: "'p analyticsCache \<Rightarrow> string \<Rightarrow> 'p js_value" where
  "cache_get c key =
     (if key = ''salesData'' then of_nullable Aggregate (salesData c)
      else if key = ''popularItems'' then of_nullable Aggregate (popularItems c)
      else if key = ''customerInsights'' then of_nullable Aggregate (customerInsights c)
      else if key = ''lastUpdated'' then of_nullable Timestamp (lastUpdated c)
      else Undefined)"

fun truthy :: "'p js_value \<Rightarrow> bool" where
  "truthy Undefined = False"
| "truthy Null = False"
| "truthy (Timestamp t) = (t \<noteq> 0)"
| "truthy (Aggregate p) = True"
| "truthy EmptyObject = True"

text \<open>The three cached endpoints and the \<^verbatim>\<open>req.route.path\<close> of each.\<close>

datatype endpoint = Sales | PopularItems | CustomerInsights

fun route_path :: "endpoint \<Rightarrow> string" where
  "route_path Sales = ''/sales''"
| "route_path PopularItems = ''/popular-items''"
| "route_path CustomerInsights = ''/customer-insights''"

text \<open>
  The JSON bodies the endpoints send: the cached answer of \<^verbatim>\<open>checkCache\<close>, the
  freshly computed answer, and the status-500 answer.
\<close>

datatype 'p response =
    CachedResponse "'p js_value" int
  | FreshResponse 'p
  | ErrorResponse string

text \<open>
  \<^verbatim>\<open>
  const checkCache = (req, res, next) => {
    if (analyticsCache.lastUpdated &&
        (Date.now() - analyticsCache.lastUpdated) < CACHE_EXPIRY) {
      return res.json({ success: true, data: analyticsCache[req.route.path] || {},
                        cached: true, lastUpdated: analyticsCache.lastUpdated });
    }
    next();
  };
  \<close>
  \<open>None\<close> stands for the call of \<^verbatim>\<open>next()\<close>.
\<close>

definition checkCache :: "'p analyticsCache \<Rightarrow> int \<Rightarrow> string \<Rightarrow> 'p response option" where
  "checkCache c now path =
     (case lastUpdated c of
        None \<Rightarrow> None
      | Some t \<Rightarrow>
          if t \<noteq> 0 \<and> now - t < CACHE_EXPIRY
          then Some (CachedResponse
                 (if truthy (cache_get c path) then cache_get c path else EmptyObject) t)
          else None)"

text \<open>
  The end of each handler:
  \<^verbatim>\<open>
  analyticsCache.salesData = result;        // popularItems, customerInsights
  analyticsCache.lastUpdated = Date.now();
  res.json({ success: true, data: result });
  \<close>
\<close>

fun update_cache :: "endpoint \<Rightarrow> 'p \<Rightarrow> int \<Rightarrow> 'p analyticsCache \<Rightarrow> 'p analyticsCache" where
  "update_cache Sales result now c = c\<lparr>salesData := Some result, lastUpdated := Some now\<rparr>"
| "update_cache PopularItems result now c =
     c\<lparr>popularItems := Some result, lastUpdated := Some now\<rparr>"
| "update_cache CustomerInsights result now c =
     c\<lparr>customerInsights := Some result, lastUpdated := Some now\<rparr>"

text \<open>
  One request \<^verbatim>\<open>router.get(path, checkCache, handler)\<close>. \<open>arrival\<close> is the clock when
  \<^verbatim>\<open>checkCache\<close> runs; \<open>aggregate\<close> is the outcome of the handler's aggregation
  queries on the order store (an error when one of them rejects, which the handler's
  \<^verbatim>\<open>catch\<close> turns into the status-500 answer); \<open>finished\<close> is the clock when the handler
  stores its result. The request returns its answer and the cache it leaves.
\<close>

definition get_analytics ::
  "endpoint \<Rightarrow> int \<Rightarrow> string + 'p \<Rightarrow> int \<Rightarrow> 'p analyticsCache
     \<Rightarrow> 'p response \<times> 'p analyticsCache" where
  "get_analytics e arrival aggregate finished c =
     (case checkCache c arrival (route_path e) of
        Some r \<Rightarrow> (r, c)
      | None \<Rightarrow>
          (case aggregate of
             Inl err \<Rightarrow> (ErrorResponse err, c)
           | Inr result \<Rightarrow> (FreshResponse result, update_cache e result finished c)))"

lemma cache_get_route_path: "cache_get c (route_path e) = Undefined"
  by (cases e) (simp_all add: cache_get_def)

lemma checkCache_route_path:
  "checkCache c now (route_path e) =
     (case lastUpdated c of
        None \<Rightarrow> None
      | Some t \<Rightarrow> if t \<noteq> 0 \<and> now - t < CACHE_EXPIRY
                  then Some (CachedResponse EmptyObject t) else None)"
  by (simp add: checkCache_def cache_get_route_path split: option.splits)

lemma lastUpdated_update_cache: "lastUpdated (update_cache e p t c) = Some t"
  by (cases e) simp_all

text \<open>
  Claim C5. The claim: a request to a cached endpoint that arrives less than five
  minutes after an earlier request to the same endpoint completed returns the payload
  the earlier one computed. The code reads the cache under the route path
  (\<^verbatim>\<open>'/sales'\<close>), while the handlers store under \<^verbatim>\<open>salesData\<close>, \<^verbatim>\<open>popularItems\<close> and
  \<^verbatim>\<open>customerInsights\<close>: whatever payload \<open>p\<close> the first request computed and stored at
  a time \<open>t1\<close>, a second request to the same endpoint within the window is answered
  from the cache with the empty object, not with \<open>p\<close>.
\<close>

theorem cached_request_returns_empty_object:
  "t1 \<noteq> 0 \<Longrightarrow> t2 - t1 < CACHE_EXPIRY \<Longrightarrow>
   get_analytics e t0 (Inr p) t1 empty_cache = (r1, c1) \<Longrightarrow>
   r1 = FreshResponse p
   \<and> get_analytics e t2 agg t3 c1 = (CachedResponse EmptyObject t1, c1)"
proof -
  assume t1: "t1 \<noteq> 0" and win: "t2 - t1 < CACHE_EXPIRY"
    and first: "get_analytics e t0 (Inr p) t1 empty_cache = (r1, c1)"
  have "checkCache (empty_cache :: 'a analyticsCache) t0 (route_path e) = None"
    by (simp add: checkCache_route_path empty_cache_def)
  with first have r1: "r1 = FreshResponse p" and c1: "c1 = update_cache e p t1 empty_cache"
    by (simp_all add: get_analytics_def)
  have "lastUpdated c1 = Some t1"
    by (simp add: c1 lastUpdated_update_cache)
  with t1 win have "checkCache c1 t2 (route_path e) = Some (CachedResponse EmptyObject t1)"
    by (simp add: checkCache_route_path)
  then have "get_analytics e t2 agg t3 c1 = (CachedResponse EmptyObject t1, c1)"
    by (simp add: get_analytics_def)
  with r1 show ?thesis by simp
qed

theorem cached_request_returns_empty_object_witness:
  "get_analytics Sales 1000 (Inr ''report'') 1200 empty_cache
     = (FreshResponse ''report'',
        \<lparr>salesData = Some ''report'', popularItems = None, customerInsights = None,
         lastUpdated = Some 1200\<rparr>)
   \<and> get_analytics Sales 2000 (Inr ''report'') 2200
        \<lparr>salesData = Some ''report'', popularItems = None, customerInsights = None,
         lastUpdated = Some 1200\<rparr>
     = (CachedResponse EmptyObject 1200,
        \<lparr>salesData = Some ''report'', popularItems = None, customerInsights = None,
         lastUpdated = Some 1200\<rparr>)"
proof -
  have first: "get_analytics Sales 1000 (Inr ''report'') 1200 empty_cache
     = (FreshResponse ''report'',
        \<lparr>salesData = Some ''report'', popularItems = None, customerInsights = None,
         lastUpdated = Some 1200\<rparr>)"
    by (simp add: get_analytics_def checkCache_def empty_cache_def)
  have "(1200::int) \<noteq> 0" and "(2000::int) - 1200 < CACHE_EXPIRY"
    by (simp_all add: CACHE_EXPIRY_def)
  from cached_request_returns_empty_object [OF this first, of "Inr ''report''" 2200] first
  show ?thesis by simp
qed

section \<open>Text enrichment client (AIService)\<close>

text \<open>
  What a \<^verbatim>\<open>try\<close> block can throw: a \<^verbatim>\<open>TypeError\<close> or \<^verbatim>\<open>SyntaxError\<close> of the language,
  and the rejections of the HTTP client and of the database driver. A function that
  can throw returns \<open>js_error + 'a\<close>, with \<open>Inl\<close> for the thrown error.
\<close>

datatype js_error = TypeError | SyntaxError | Timeout | NetworkError | HttpError nat
  | StoreError

text \<open>
  The response of the completion API, as far as the code inspects it:
  \<^verbatim>\<open>response.data && response.data.choices && response.data.choices[0]
      && response.data.choices[0].message\<close>, then \<^verbatim>\<open>message.content.trim()\<close>.
  A part that is absent or \<^verbatim>\<open>null\<close> is \<open>None\<close>; a \<^verbatim>\<open>content\<close> that is not a string
  (so that \<^verbatim>\<open>.trim()\<close> throws a \<^verbatim>\<open>TypeError\<close>) is \<open>NotAString\<close>.
\<close>

datatype message_content = StringContent string | NotAString

record api_message =
  content :: message_content

record api_choice =
  message :: "api_message option"

record api_data =
  choices :: "api_choice option list option"

record api_response =
  data :: "api_data option"

text \<open>
  The body and options of the \<^verbatim>\<open>axios.post\<close> call: the model, the system and the user
  message, the token limit, the temperature, the authorization header and the time-out
  in milliseconds.
\<close>

record api_request =
  req_model :: string
  req_system :: string
  req_user :: string
  req_max_tokens :: nat
  req_temperature :: real
  req_authorization :: string
  req_timeout :: nat

type_synonym http_client = "api_request \<Rightarrow> js_error + api_response"

definition first_message :: "api_response \<Rightarrow> api_message option" where
  "first_message response =
     (case data response of
        None \<Rightarrow> None
      | Some d \<Rightarrow>
          (case choices d of
             None \<Rightarrow> None
           | Some cs \<Rightarrow>
               (case cs of
                  [] \<Rightarrow> None
                | c # _ \<Rightarrow> (case c of None \<Rightarrow> None | Some ch \<Rightarrow> message ch))))"

text \<open>\<^verbatim>\<open>String.prototype.trim\<close> on the white space of ASCII.\<close>

definition is_space :: "char \<Rightarrow> bool" where
  "is_space c = (c \<in> set [CHR '' '', CHR 0x09, CHR 0x0A, CHR 0x0B, CHR 0x0C, CHR 0x0D])"

definition trim :: "string \<Rightarrow> string" where
  "trim s = rev (dropWhile is_space (rev (dropWhile is_space s)))"

text \<open>\<^verbatim>\<open>xs.join(', ')\<close>.\<close>

fun join :: "string \<Rightarrow> string list \<Rightarrow> string" where
  "join sep [] = []"
| "join sep [x] = x"
| "join sep (x # y # ys) = x @ sep @ join sep (y # ys)"

text \<open>\<^verbatim>\<open>!this.apiKey\<close>: the key is \<^verbatim>\<open>undefined\<close> or the empty string.\<close>

fun no_credential :: "string option \<Rightarrow> bool" where
  "no_credential None = True"
| "no_credential (Some k) = (k = [])"

definition enhance_request :: "string \<Rightarrow> string \<Rightarrow> string \<Rightarrow> string list \<Rightarrow> api_request" where
  "enhance_request apiKey modelName originalDescription ingredients =
     \<lparr>req_model = modelName,
      req_system = ''You are a helpful assistant that enhances restaurant menu descriptions to make them more appealing and appetizing while keeping them accurate and concise.'',
      req_user = ''Enhance this restaurant dish description to make it more appealing: '' @ [CHR 0x22]
         @ originalDescription @ [CHR 0x22] @ ''. '' @ [CHR 0x0A]
         @ ''      Use these ingredients: '' @ join '', '' ingredients @ ''. '' @ [CHR 0x0A]
         @ ''      Make it sound delicious and highlight the key features. Keep it under 100 words.'',
      req_max_tokens = 200,
      req_temperature = 0.7,
      req_authorization = ''Bearer '' @ apiKey,
      req_timeout = 30000\<rparr>"

text \<open>
  The \<^verbatim>\<open>try\<close> block of \<^verbatim>\<open>enhanceDescription(originalDescription, ingredients)\<close>;
  \<open>post\<close> is the outcome of \<^verbatim>\<open>await axios.post(...)\<close>.
\<close>

definition enhanceDescription_try ::
  "string option \<Rightarrow> string \<Rightarrow> http_client \<Rightarrow> string \<Rightarrow> string list \<Rightarrow> js_error + string" where
  "enhanceDescription_try apiKey modelName post originalDescription ingredients =
     (if no_credential apiKey then Inr originalDescription
      else
        (case post (enhance_request (the apiKey) modelName originalDescription ingredients) of
           Inl e \<Rightarrow> Inl e
         | Inr response \<Rightarrow>
             (case first_message response of
                Some m \<Rightarrow>
                  (case content m of
                     NotAString \<Rightarrow> Inl TypeError
                   | StringContent s \<Rightarrow>
                       (let enhanced = trim s
                        in Inr (if enhanced \<noteq> [] then enhanced else originalDescription)))
              | None \<Rightarrow> Inr originalDescription)))"

text \<open>The whole method: the \<^verbatim>\<open>catch\<close> block returns the original description.\<close>

definition enhanceDescription ::
  "string option \<Rightarrow> string \<Rightarrow> http_client \<Rightarrow> string \<Rightarrow> string list \<Rightarrow> js_error + string" where
  "enhanceDescription apiKey modelName post originalDescription ingredients =
     (case enhanceDescription_try apiKey modelName post originalDescription ingredients of
        Inl e \<Rightarrow> Inr originalDescription
      | Inr v \<Rightarrow> Inr v)"

text \<open>The object \<^verbatim>\<open>{ success, answer, source }\<close> that \<^verbatim>\<open>answerQuestion\<close> returns.\<close>

record answer =
  success :: bool
  answer_text :: string
  source :: string

definition answer_request :: "string \<Rightarrow> string \<Rightarrow> string \<Rightarrow> string \<Rightarrow> api_request" where
  "answer_request apiKey modelName menuContext question =
     \<lparr>req_model = modelName,
      req_system = ''You are a helpful restaurant AI assistant. Your role is to answer customer questions about the menu items, ingredients, dietary restrictions, and recommendations. Be friendly, professional, and accurate. Use the menu context provided to give specific and helpful answers.'',
      req_user = ''Customer question: '' @ [CHR 0x22] @ question @ [CHR 0x22, CHR 0x0A]
         @ ''      '' @ [CHR 0x0A]
         @ ''      Menu context: ''
         @ (if menuContext \<noteq> [] then menuContext else ''General menu information'')
         @ [CHR 0x0A] @ ''      '' @ [CHR 0x0A]
         @ ''      Please provide a helpful, accurate answer based on the menu information. Be friendly and professional.'',
      req_max_tokens = 500,
      req_temperature = 0.7,
      req_authorization = ''Bearer '' @ apiKey,
      req_timeout = 30000\<rparr>"

text \<open>
  The \<^verbatim>\<open>try\<close> block of \<^verbatim>\<open>answerQuestion(question, context)\<close>. \<open>menuContext\<close> is the
  string \<^verbatim>\<open>await this.getMenuContext(context)\<close> returns (that method catches its own
  errors and returns a string in every case).
\<close>

definition answerQuestion_try ::
  "string option \<Rightarrow> string \<Rightarrow> http_client \<Rightarrow> string \<Rightarrow> string \<Rightarrow> js_error + answer" where
  "answerQuestion_try apiKey modelName post menuContext question =
     (if no_credential apiKey
      then Inr \<lparr>success = False,
                answer_text = ''AI service is not available. Please contact staff for assistance.'',
                source = ''fallback''\<rparr>
      else
        (case post (answer_request (the apiKey) modelName menuContext question) of
           Inl e \<Rightarrow> Inl e
         | Inr response \<Rightarrow>
             (case first_message response of
                Some m \<Rightarrow>
                  (case content m of
                     NotAString \<Rightarrow> Inl TypeError
                   | StringContent s \<Rightarrow>
                       (let a = trim s
                        in Inr \<lparr>success = True,
                                answer_text = (if a \<noteq> [] then a else
                                  ''I apologize, but I couldn't generate a response. Please ask our staff for assistance.''),
                                source = ''ai''\<rparr>))
              | None \<Rightarrow>
                  Inr \<lparr>success = False,
                       answer_text = ''I apologize, but I couldn't process your question. Please ask our staff for assistance.'',
                       source = ''fallback''\<rparr>)))"

definition answerQuestion ::
  "string option \<Rightarrow> string \<Rightarrow> http_client \<Rightarrow> string \<Rightarrow> string \<Rightarrow> js_error + answer" where
  "answerQuestion apiKey modelName post menuContext question =
     (case answerQuestion_try apiKey modelName post menuContext question of
        Inl e \<Rightarrow>
          Inr \<lparr>success = False,
               answer_text = ''I apologize, but I'm experiencing technical difficulties. Please ask our staff for assistance.'',
               source = ''fallback''\<rparr>
      | Inr r \<Rightarrow> Inr r)"

text \<open>
  An external call that fails: the request is rejected (time-out, network error, error
  status), or the response is malformed (no first message, or a message whose content
  is not a string).
\<close>

definition call_failed :: "js_error + api_response \<Rightarrow> bool" where
  "call_failed outcome =
     (case outcome of
        Inl e \<Rightarrow> True
      | Inr response \<Rightarrow>
          (case first_message response of
             None \<Rightarrow> True
           | Some m \<Rightarrow> content m = NotAString))"

lemma enhanceDescription_returns:
  "\<exists>v. enhanceDescription apiKey modelName post d ings = Inr v"
  by (simp add: enhanceDescription_def split: sum.splits)

lemma answerQuestion_returns:
  "\<exists>r. answerQuestion apiKey modelName post ctx q = Inr r"
  by (simp add: answerQuestion_def split: sum.splits)

lemma enhanceDescription_no_credential:
  "no_credential apiKey \<Longrightarrow> enhanceDescription apiKey modelName post d ings = Inr d"
  by (simp add: enhanceDescription_def enhanceDescription_try_def)

lemma answerQuestion_no_credential:
  "no_credential apiKey \<Longrightarrow>
   answerQuestion apiKey modelName post ctx q =
     Inr \<lparr>success = False,
          answer_text = ''AI service is not available. Please contact staff for assistance.'',
          source = ''fallback''\<rparr>"
  by (simp add: answerQuestion_def answerQuestion_try_def)

lemma enhanceDescription_call_failed:
  "call_failed (post (enhance_request (the apiKey) modelName d ings)) \<Longrightarrow>
   enhanceDescription apiKey modelName post d ings = Inr d"
  by (auto simp: enhanceDescription_def enhanceDescription_try_def call_failed_def
      split: sum.splits option.splits message_content.splits)

lemma answerQuestion_call_failed:
  "call_failed (post (answer_request (the apiKey) modelName ctx q)) \<Longrightarrow>
   \<exists>r. answerQuestion apiKey modelName post ctx q = Inr r
       \<and> \<not> success r \<and> source r = ''fallback''"
  by (auto simp: answerQuestion_def answerQuestion_try_def call_failed_def
      split: sum.splits option.splits message_content.splits)

text \<open>
  Claim C9. When no API credential is configured, \<^verbatim>\<open>enhanceDescription\<close> returns
  exactly the input description and \<^verbatim>\<open>answerQuestion\<close> returns the fixed fallback
  message with source tag \<^verbatim>\<open>'fallback'\<close>. For every input and every outcome of the
  external call neither operation throws: each returns a value. When the external call
  fails (time-out, network error, malformed response) the failure shows only in the
  result: the original description, respectively an answer with \<open>success = False\<close> and
  source \<^verbatim>\<open>'fallback'\<close>.
\<close>

theorem enrichment_fails_soft:
  "(no_credential apiKey \<longrightarrow>
      enhanceDescription apiKey modelName post d ings = Inr d
      \<and> answerQuestion apiKey modelName post ctx q =
          Inr \<lparr>success = False,
               answer_text = ''AI service is not available. Please contact staff for assistance.'',
               source = ''fallback''\<rparr>)
   \<and> (\<exists>v. enhanceDescription apiKey modelName post d ings = Inr v)
   \<and> (\<exists>r. answerQuestion apiKey modelName post ctx q = Inr r)
   \<and> (call_failed (post (enhance_request (the apiKey) modelName d ings)) \<longrightarrow>
        enhanceDescription apiKey modelName post d ings = Inr d)
   \<and> (call_failed (post (answer_request (the apiKey) modelName ctx q)) \<longrightarrow>
        (\<exists>r. answerQuestion apiKey modelName post ctx q = Inr r
           \<and> \<not> success r \<and> source r = ''fallback''))"
  using enhanceDescription_no_credential [of apiKey modelName post d ings]
    answerQuestion_no_credential [of apiKey modelName post ctx q]
    enhanceDescription_returns [of apiKey modelName post d ings]
    answerQuestion_returns [of apiKey modelName post ctx q]
    enhanceDescription_call_failed [of post apiKey modelName d ings]
    answerQuestion_call_failed [of post apiKey modelName ctx q]
  by blast

theorem enrichment_fails_soft_witness:
  "no_credential None
   \<and> enhanceDescription None ''gpt-3.5-turbo'' (\<lambda>r. Inl Timeout) ''Tomato soup'' [''tomato'']
       = Inr ''Tomato soup''
   \<and> answerQuestion None ''gpt-3.5-turbo'' (\<lambda>r. Inl Timeout) [] ''Is the soup vegan?''
       = Inr \<lparr>success = False,
              answer_text = ''AI service is not available. Please contact staff for assistance.'',
              source = ''fallback''\<rparr>
   \<and> call_failed (Inl Timeout :: js_error + api_response)
   \<and> enhanceDescription (Some ''key'') ''gpt-3.5-turbo'' (\<lambda>r. Inl Timeout) ''Tomato soup''
        [''tomato''] = Inr ''Tomato soup''
   \<and> (\<exists>r. answerQuestion (Some ''key'') ''gpt-3.5-turbo'' (\<lambda>r. Inl Timeout) []
            ''Is the soup vegan?'' = Inr r \<and> \<not> success r \<and> source r = ''fallback'')"
proof -
  have nc: "no_credential None" by simp
  have cf: "call_failed (Inl Timeout :: js_error + api_response)"
    by (simp add: call_failed_def)
  note a = enrichment_fails_soft [of None "''gpt-3.5-turbo''" "\<lambda>r. Inl Timeout"
      "''Tomato soup''" "[''tomato'']" "[]" "''Is the soup vegan?''"]
  note b = enrichment_fails_soft [of "Some ''key''" "''gpt-3.5-turbo''" "\<lambda>r. Inl Timeout"
      "''Tomato soup''" "[''tomato'']" "[]" "''Is the soup vegan?''"]
  from a nc have 1: "enhanceDescription None ''gpt-3.5-turbo'' (\<lambda>r. Inl Timeout)
      ''Tomato soup'' [''tomato''] = Inr ''Tomato soup''"
    and 2: "answerQuestion None ''gpt-3.5-turbo'' (\<lambda>r. Inl Timeout) [] ''Is the soup vegan?''
       = Inr \<lparr>success = False,
              answer_text = ''AI service is not available. Please contact staff for assistance.'',
              source = ''fallback''\<rparr>"
    by blast+
  from b cf have 3: "enhanceDescription (Some ''key'') ''gpt-3.5-turbo'' (\<lambda>r. Inl Timeout)
      ''Tomato soup'' [''tomato''] = Inr ''Tomato soup''"
    and 4: "\<exists>r. answerQuestion (Some ''key'') ''gpt-3.5-turbo'' (\<lambda>r. Inl Timeout) []
            ''Is the soup vegan?'' = Inr r \<and> \<not> success r \<and> source r = ''fallback''"
    by blast+
  from nc cf 1 2 3 4 show ?thesis by blast
qed

section \<open>History-based ranker (AIService.analyzeCustomerHistory, AIService.rankByAI)\<close>

subsection \<open>Strings and plain objects of the language\<close>


definition lower_char :: "char \<Rightarrow> char" where
  "lower_char c =
     (case map_of (zip ''ABCDEFGHIJKLMNOPQRSTUVWXYZ'' ''abcdefghijklmnopqrstuvwxyz'') c of
        None \<Rightarrow> c
      | Some l \<Rightarrow> l)"

definition toLowerCase :: "string \<Rightarrow> string" where
  "toLowerCase s = map lower_char s"

text \<open>
  A plain object used as a counter table (\<^verbatim>\<open>const categoryCount = {}\<close>): its own
  properties in the order of their creation. Writing an existing property keeps its
  place; writing a new one appends it.

  The table is modelled for the names that a plain object does not inherit from
  \<^verbatim>\<open>Object.prototype\<close>. For an inherited name (\<^verbatim>\<open>constructor\<close>, \<^verbatim>\<open>toString\<close>, ...,
  listed in \<open>inherited_names\<close>) the code reads the inherited value, stores a string
  and leaves the order of the sorted entries to the engine; every statement about the
  content of the counters excludes these names by hypothesis (\<open>plain_name\<close>).
\<close>

type_synonym 'v js_object = "(string \<times> 'v) list"

definition obj_get :: "'v js_object \<Rightarrow> string \<Rightarrow> 'v option" where
  "obj_get obj k = map_of obj k"

fun obj_set :: "'v js_object \<Rightarrow> string \<Rightarrow> 'v \<Rightarrow> 'v js_object" where
  "obj_set [] k v = [(k, v)]"
| "obj_set (p # ps) k v = (if fst p = k then (k, v) # ps else p # obj_set ps k v)"


text \<open>
  The order of \<^verbatim>\<open>Object.entries\<close>: first the properties whose name is an array index
  (the canonical decimal numeral of an integer from 0 to \<open>2\<^sup>3\<^sup>2 - 2\<close>), in ascending
  numeric order, then the other properties in the order of their creation.
\<close>

definition is_digit :: "char \<Rightarrow> bool" where
  "is_digit c = (48 \<le> (of_char c :: nat) \<and> (of_char c :: nat) \<le> 57)"

definition decimal_value :: "string \<Rightarrow> nat" where
  "decimal_value s = foldl (\<lambda>n c. 10 * n + (of_char c - 48)) 0 s"

definition is_array_index :: "string \<Rightarrow> bool" where
  "is_array_index s =
     (s \<noteq> [] \<and> list_all is_digit s \<and> (hd s \<noteq> CHR ''0'' \<or> s = ''0'')
      \<and> decimal_value s < 2 ^ 32 - 1)"

definition Object_entries :: "'v js_object \<Rightarrow> (string \<times> 'v) list" where
  "Object_entries obj =
     sort_key (\<lambda>p. decimal_value (fst p)) (filter (\<lambda>p. is_array_index (fst p)) obj)
     @ filter (\<lambda>p. \<not> is_array_index (fst p)) obj"

text \<open>\<^verbatim>\<open>count[k] = (count[k] || 0) + 1\<close>.\<close>

definition count_key :: "nat js_object \<Rightarrow> string \<Rightarrow> nat js_object" where
  "count_key obj k = obj_set obj k ((case obj_get obj k of None \<Rightarrow> 0 | Some n \<Rightarrow> n) + 1)"

text \<open>
  \<^verbatim>\<open>Object.entries(count).sort(([,a], [,b]) => b - a).slice(0, n).map(([k]) => k)\<close>;
  \<^verbatim>\<open>Array.prototype.sort\<close> is stable.
\<close>

definition top_keys :: "nat \<Rightarrow> nat js_object \<Rightarrow> string list" where
  "top_keys n obj = map fst (take n (sort_key (\<lambda>p. - int (snd p)) (Object_entries obj)))"

text \<open>
  \<^verbatim>\<open>xs.forEach(f)\<close> and \<^verbatim>\<open>xs.map(f)\<close> with a callback that can throw: the first
  throw ends the loop and is the outcome.
\<close>

fun forEach :: "('a \<Rightarrow> 's \<Rightarrow> js_error + 's) \<Rightarrow> 'a list \<Rightarrow> 's \<Rightarrow> js_error + 's" where
  "forEach f [] s = Inr s"
| "forEach f (x # xs) s = (case f x s of Inl e \<Rightarrow> Inl e | Inr s' \<Rightarrow> forEach f xs s')"

fun map_throwing :: "('a \<Rightarrow> js_error + 'b) \<Rightarrow> 'a list \<Rightarrow> js_error + 'b list" where
  "map_throwing f [] = Inr []"
| "map_throwing f (x # xs) =
     (case f x of
        Inl e \<Rightarrow> Inl e
      | Inr y \<Rightarrow> (case map_throwing f xs of Inl e \<Rightarrow> Inl e | Inr ys \<Rightarrow> Inr (y # ys)))"

subsection \<open>Order history\<close>

text \<open>
  The customer history is data of the caller: a list of orders, each with its
  \<^verbatim>\<open>items\<close>, each item with its \<^verbatim>\<open>price\<close> and its populated \<^verbatim>\<open>menuItem\<close>. Parts that
  the code guards with a truthiness test, or that make it throw when they are
  missing, are optional here: \<open>None\<close> is a missing (or \<^verbatim>\<open>null\<close>) part.
\<close>

record history_ingredient =
  hi_name :: "string option"

record history_menu_item =
  hm_category :: "string option"
  hm_ingredients :: "history_ingredient list option"

record order_item =
  oi_menuItem :: "history_menu_item option"
  oi_price :: real

record order_entry =
  order_items :: "order_item list option"

record price_range =
  pr_min :: real
  pr_max :: real

record analysis =
  preferredCategories :: "string list"
  preferredIngredients :: "string list"
  an_priceRange :: price_range
  spicePreference :: string

subsection \<open>analyzeCustomerHistory\<close>

text \<open>
  \<^verbatim>\<open>
  history.forEach(order => {
    order.items.forEach(item => {
      if (item.menuItem && item.menuItem.category) {
        categoryCount[item.menuItem.category] = (categoryCount[item.menuItem.category] || 0) + 1;
      }
    });
  });
  \<close>
\<close>

definition count_item_category :: "order_item \<Rightarrow> nat js_object \<Rightarrow> js_error + nat js_object" where
  "count_item_category item categoryCount =
     (case oi_menuItem item of
        None \<Rightarrow> Inr categoryCount
      | Some m \<Rightarrow>
          (case hm_category m of
             None \<Rightarrow> Inr categoryCount
           | Some c \<Rightarrow> if c \<noteq> [] then Inr (count_key categoryCount c) else Inr categoryCount))"

definition over_items ::
  "(order_item \<Rightarrow> 's \<Rightarrow> js_error + 's) \<Rightarrow> order_entry \<Rightarrow> 's \<Rightarrow> js_error + 's" where
  "over_items f order s =
     (case order_items order of None \<Rightarrow> Inl TypeError | Some items \<Rightarrow> forEach f items s)"

definition count_categories :: "order_entry list \<Rightarrow> js_error + nat js_object" where
  "count_categories history = forEach (over_items count_item_category) history []"

text \<open>
  \<^verbatim>\<open>
  history.forEach(order => {
    order.items.forEach(item => {
      if (item.menuItem && item.menuItem.ingredients) {
        item.menuItem.ingredients.forEach(ingredient => {
          ingredientCount[ingredient.name.toLowerCase()] =
            (ingredientCount[ingredient.name.toLowerCase()] || 0) + 1;
        });
      }
    });
  });
  \<close>
\<close>

definition count_ingredient :: "history_ingredient \<Rightarrow> nat js_object \<Rightarrow> js_error + nat js_object" where
  "count_ingredient ingredient ingredientCount =
     (case hi_name ingredient of
        None \<Rightarrow> Inl TypeError
      | Some n \<Rightarrow> Inr (count_key ingredientCount (toLowerCase n)))"

definition count_item_ingredients :: "order_item \<Rightarrow> nat js_object \<Rightarrow> js_error + nat js_object" where
  "count_item_ingredients item ingredientCount =
     (case oi_menuItem item of
        None \<Rightarrow> Inr ingredientCount
      | Some m \<Rightarrow>
          (case hm_ingredients m of
             None \<Rightarrow> Inr ingredientCount
           | Some ings \<Rightarrow> forEach count_ingredient ings ingredientCount))"

definition count_ingredients :: "order_entry list \<Rightarrow> js_error + nat js_object" where
  "count_ingredients history = forEach (over_items count_item_ingredients) history []"

text \<open>\<^verbatim>\<open>history.flatMap(order => order.items.map(item => item.price))\<close>.\<close>

definition history_prices :: "order_entry list \<Rightarrow> js_error + real list" where
  "history_prices history =
     (case map_throwing
             (\<lambda>order. case order_items order of
                         None \<Rightarrow> Inl TypeError
                       | Some items \<Rightarrow> Inr (map oi_price items)) history of
        Inl e \<Rightarrow> Inl e
      | Inr pss \<Rightarrow> Inr (concat pss))"

definition default_analysis :: analysis where
  "default_analysis =
     \<lparr>preferredCategories = [], preferredIngredients = [],
      an_priceRange = \<lparr>pr_min = 0, pr_max = 100\<rparr>, spicePreference = ''medium''\<rparr>"

text \<open>
  The method has no \<^verbatim>\<open>try\<close> of its own: what its loops throw, it throws.
  \<^verbatim>\<open>Math.min(...prices) * 0.8\<close> and \<^verbatim>\<open>Math.max(...prices) * 1.2\<close> are taken only of
  a non-empty list.
\<close>

definition analyzeCustomerHistory :: "order_entry list \<Rightarrow> js_error + analysis" where
  "analyzeCustomerHistory history =
     (if length history = 0 then Inr default_analysis
      else
        (case count_categories history of
           Inl e \<Rightarrow> Inl e
         | Inr categoryCount \<Rightarrow>
             (case count_ingredients history of
                Inl e \<Rightarrow> Inl e
              | Inr ingredientCount \<Rightarrow>
                  (case history_prices history of
                     Inl e \<Rightarrow> Inl e
                   | Inr prices \<Rightarrow>
                       Inr \<lparr>preferredCategories = top_keys 3 categoryCount,
                            preferredIngredients = top_keys 10 ingredientCount,
                            an_priceRange =
                              (if length prices > 0
                               then \<lparr>pr_min = fmul (Min (set prices)) (round_double 0.8),
                                     pr_max = fmul (Max (set prices)) (round_double 1.2)\<rparr>
                               else \<lparr>pr_min = 0, pr_max = 100\<rparr>),
                            spicePreference = ''medium''\<rparr>))))"

subsection \<open>rankByAI\<close>

text \<open>
  The callback of \<^verbatim>\<open>items.map\<close>:
  \<^verbatim>\<open>
  let score = 0;
  score += (item.rating.average * 0.4) + (item.popularity * 0.1);
  if (historyAnalysis.preferredCategories.includes(item.category)) score += 0.3;
  const ingredientMatch = item.ingredients.filter(ing =>
    historyAnalysis.preferredIngredients.includes(ing.name.toLowerCase())).length;
  score += ingredientMatch * 0.2;
  if (item.price >= historyAnalysis.priceRange.min &&
      item.price <= historyAnalysis.priceRange.max) score += 0.2;
  return { item, score };
  \<close>
\<close>

definition score_item :: "analysis \<Rightarrow> menu_item \<Rightarrow> real" where
  "score_item historyAnalysis item =
     (let score = 0;
          score = fadd score
                    (fadd (fmul (average (item_rating item)) (round_double 0.4))
                          (fmul (item_popularity item) (round_double 0.1)));
          score = (if item_category item \<in> set (preferredCategories historyAnalysis)
                   then fadd score (round_double 0.3) else score);
          ingredientMatch =
            length (filter (\<lambda>ing. toLowerCase (ing_name ing)
                                      \<in> set (preferredIngredients historyAnalysis))
                      (item_ingredients item));
          score = fadd score (fmul (real ingredientMatch) (round_double 0.2));
          score = (if item_price item \<ge> pr_min (an_priceRange historyAnalysis)
                      \<and> item_price item \<le> pr_max (an_priceRange historyAnalysis)
                   then fadd score (round_double 0.2) else score)
      in score)"

text \<open>
  \<^verbatim>\<open>scoredItems.sort((a, b) => b.score - a.score).map(scored => scored.item)\<close>: a
  stable sort, the higher score first.
\<close>

definition rank_with :: "analysis \<Rightarrow> menu_item list \<Rightarrow> menu_item list" where
  "rank_with historyAnalysis items =
     (let scoredItems = map (\<lambda>item. (item, score_item historyAnalysis item)) items
      in map fst (sort_key (\<lambda>scored. - snd scored) scoredItems))"

text \<open>
  The \<^verbatim>\<open>try\<close> block covers the analysis and the scoring; the \<^verbatim>\<open>catch\<close> block returns
  \<^verbatim>\<open>items\<close>.
\<close>

definition rankByAI :: "menu_item list \<Rightarrow> order_entry list \<Rightarrow> menu_item list" where
  "rankByAI items customerHistory =
     (case analyzeCustomerHistory customerHistory of
        Inl e \<Rightarrow> items
      | Inr historyAnalysis \<Rightarrow> rank_with historyAnalysis items)"

section \<open>Preference matcher (AIService.getRecommendations)\<close>

subsection \<open>Preferences and catalog queries\<close>

text \<open>
  The \<^verbatim>\<open>preferences\<close> argument after its destructuring with defaults. A dietary flag
  that is absent is \<open>False\<close>; \<^verbatim>\<open>category = null\<close> is \<open>None\<close>.
\<close>

record dietary_prefs =
  d_vegetarian :: bool
  d_vegan :: bool
  d_glutenFree :: bool
  d_dairyFree :: bool

record preferences =
  dietary :: dietary_prefs
  allergies :: "string list"
  spiceLevel :: string
  priceRange :: price_range
  category :: "string option"
  ingredients :: "string list"

text \<open>
  A compiled regular expression is its test on strings; \<^verbatim>\<open>new RegExp(p, 'i')\<close> gives one
  or throws a \<^verbatim>\<open>SyntaxError\<close>. The constructor is a parameter of the matcher.
\<close>

type_synonym regexp = "string \<Rightarrow> bool"

type_synonym regexp_constructor = "string \<Rightarrow> js_error + regexp"

text \<open>
  The query object: every key that the code may set, \<open>None\<close> when it is not set.
  \<open>q_price\<close> is \<^verbatim>\<open>{ $gte, $lte }\<close>, \<open>q_allergens_nin\<close> is
  \<^verbatim>\<open>'ingredients.allergens': { $nin: ... }\<close> and \<open>q_ingredient_name_in\<close> is
  \<^verbatim>\<open>'ingredients.name': { $in: ... }\<close> with regular expressions.
\<close>

record range_condition =
  gte :: real
  lte :: real

record query =
  q_availability :: "string option"
  q_vegetarian :: "bool option"
  q_vegan :: "bool option"
  q_glutenFree :: "bool option"
  q_dairyFree :: "bool option"
  q_price :: "range_condition option"
  q_category :: "string option"
  q_spicy :: "bool option"
  q_allergens_nin :: "string list option"
  q_ingredient_name_in :: "regexp list option"

text \<open>\<^verbatim>\<open>let query = { availability: 'available' };\<close>\<close>

definition base_query :: query where
  "base_query =
     \<lparr>q_availability = Some ''available'', q_vegetarian = None, q_vegan = None,
      q_glutenFree = None, q_dairyFree = None, q_price = None, q_category = None,
      q_spicy = None, q_allergens_nin = None, q_ingredient_name_in = None\<rparr>"

text \<open>
  The primary query, statement by statement. An empty string for the category is
  falsy, as \<^verbatim>\<open>null\<close> is. The regular expressions are built last, and building one can
  throw.
\<close>

definition primary_query :: "regexp_constructor \<Rightarrow> preferences \<Rightarrow> js_error + query" where
  "primary_query RegExp preferences =
     (let query = base_query;
          query = (if d_vegetarian (dietary preferences)
                   then query\<lparr>q_vegetarian := Some True\<rparr> else query);
          query = (if d_vegan (dietary preferences)
                   then query\<lparr>q_vegan := Some True\<rparr> else query);
          query = (if d_glutenFree (dietary preferences)
                   then query\<lparr>q_glutenFree := Some True\<rparr> else query);
          query = (if d_dairyFree (dietary preferences)
                   then query\<lparr>q_dairyFree := Some True\<rparr> else query);
          query = query\<lparr>q_price := Some \<lparr>gte = pr_min (priceRange preferences),
                                           lte = pr_max (priceRange preferences)\<rparr>\<rparr>;
          query = (case category preferences of
                     None \<Rightarrow> query
                   | Some c \<Rightarrow> if c \<noteq> [] then query\<lparr>q_category := Some c\<rparr> else query);
          query = (if spiceLevel preferences = ''mild'' then query\<lparr>q_spicy := Some False\<rparr>
                   else if spiceLevel preferences = ''hot''
                          \<or> spiceLevel preferences = ''extra-hot''
                   then query\<lparr>q_spicy := Some True\<rparr> else query);
          query = (if length (allergies preferences) > 0
                   then query\<lparr>q_allergens_nin := Some (allergies preferences)\<rparr> else query)
      in if length (ingredients preferences) > 0
         then (case map_throwing RegExp (ingredients preferences) of
                 Inl e \<Rightarrow> Inl e
               | Inr res \<Rightarrow> Inr (query\<lparr>q_ingredient_name_in := Some res\<rparr>))
         else Inr query)"

text \<open>
  The relaxed query:
  \<^verbatim>\<open>
  query = { availability: 'available' };
  if (dietary.vegetarian || dietary.vegan) query['dietary.vegetarian'] = true;
  \<close>
\<close>

definition relaxed_query :: "preferences \<Rightarrow> query" where
  "relaxed_query preferences =
     (let query = base_query
      in if d_vegetarian (dietary preferences) \<or> d_vegan (dietary preferences)
         then query\<lparr>q_vegetarian := Some True\<rparr> else query)"

subsection \<open>The catalog store\<close>

text \<open>
  Which items a query selects, after the query language of the document store: a key
  that is set must hold of the item. An equality holds when the item's field has the
  value; \<^verbatim>\<open>$gte\<close>/\<^verbatim>\<open>$lte\<close> are inclusive bounds; \<^verbatim>\<open>'ingredients.allergens': {$nin: xs}\<close>
  holds when no allergen tag of any ingredient is in \<open>xs\<close>;
  \<^verbatim>\<open>'ingredients.name': {$in: res}\<close> holds when the name of some ingredient is matched by
  some regular expression of \<open>res\<close>.
\<close>

fun cond :: "'a option \<Rightarrow> ('a \<Rightarrow> bool) \<Rightarrow> bool" where
  "cond None P = True"
| "cond (Some c) P = P c"

definition matches :: "query \<Rightarrow> menu_item \<Rightarrow> bool" where
  "matches q item =
     (cond (q_availability q) (\<lambda>a. item_availability item = a)
      \<and> cond (q_vegetarian q) (\<lambda>b. vegetarian (item_dietary item) = b)
      \<and> cond (q_vegan q) (\<lambda>b. vegan (item_dietary item) = b)
      \<and> cond (q_glutenFree q) (\<lambda>b. glutenFree (item_dietary item) = b)
      \<and> cond (q_dairyFree q) (\<lambda>b. dairyFree (item_dietary item) = b)
      \<and> cond (q_price q) (\<lambda>r. gte r \<le> item_price item \<and> item_price item \<le> lte r)
      \<and> cond (q_category q) (\<lambda>c. item_category item = c)
      \<and> cond (q_spicy q) (\<lambda>b. spicy (item_dietary item) = b)
      \<and> cond (q_allergens_nin q)
           (\<lambda>xs. \<not> list_ex (\<lambda>ing. list_ex (\<lambda>a. a \<in> set xs) (ing_allergens ing))
                     (item_ingredients item))
      \<and> cond (q_ingredient_name_in q)
           (\<lambda>res. list_ex (\<lambda>ing. list_ex (\<lambda>re. re (ing_name ing)) res)
                     (item_ingredients item)))"

text \<open>
  The sort keys the repository uses. Sorting on \<^verbatim>\<open>rating\<close> sorts on the whole
  sub-document \<^verbatim>\<open>{ average, count }\<close>, which the store compares field by field in the
  order of the fields; sorting on \<^verbatim>\<open>'rating.average'\<close> sorts on the average alone.
\<close>

datatype sort_field = Rating | RatingAverage | Popularity | Price

fun field_values :: "sort_field \<Rightarrow> menu_item \<Rightarrow> real list" where
  "field_values Rating item = [average (item_rating item), real (rcount (item_rating item))]"
| "field_values RatingAverage item = [average (item_rating item)]"
| "field_values Popularity item = [item_popularity item]"
| "field_values Price item = [item_price item]"

type_synonym sort_spec = "(sort_field \<times> int) list"

definition sort_tuple :: "sort_spec \<Rightarrow> menu_item \<Rightarrow> real list" where
  "sort_tuple spec item =
     concat (map (\<lambda>(f, direction). map (\<lambda>v. real_of_int direction * v) (field_values f item))
               spec)"

text \<open>
  \<^verbatim>\<open>await MenuItem.find(query).sort(spec).limit(n)\<close>: the call can reject. The store is
  a parameter of the matcher.
\<close>

type_synonym store = "query \<Rightarrow> sort_spec \<Rightarrow> nat \<Rightarrow> js_error + menu_item list"

text \<open>
  A store that holds the items \<open>catalog\<close> and answers every call: the selected items,
  ordered by the sort tuple (items with equal tuples in their stored order), cut at the
  limit.
\<close>

definition catalog_store :: "menu_item list \<Rightarrow> store" where
  "catalog_store catalog q spec n =
     Inr (take n (sort_key (sort_tuple spec) (filter (matches q) catalog)))"

subsection \<open>getRecommendations\<close>

text \<open>
  The two objects the method returns:
  \<^verbatim>\<open>{ success: true, recommendations, count, preferences }\<close> and
  \<^verbatim>\<open>{ success: false, error, recommendations: [] }\<close>.
\<close>

datatype recommendation_result =
    Success "menu_item list" nat preferences
  | Failure string "menu_item list"

text \<open>\<^verbatim>\<open>.sort({ rating: -1, popularity: -1 })\<close>\<close>

definition recommendation_sort :: sort_spec where
  "recommendation_sort = [(Rating, -1), (Popularity, -1)]"

definition failed_result :: recommendation_result where
  "failed_result = Failure ''Failed to get recommendations'' []"

text \<open>
  The end of the \<^verbatim>\<open>try\<close> block: the ranking when a history was given, and the result
  object.
\<close>

definition ranked_result ::
  "preferences \<Rightarrow> order_entry list \<Rightarrow> menu_item list \<Rightarrow> recommendation_result" where
  "ranked_result preferences customerHistory recommendations =
     (let recommendations =
            (if length customerHistory > 0 then rankByAI recommendations customerHistory
             else recommendations)
      in Success recommendations (length recommendations) preferences)"

text \<open>
  The method, with the queries it sent to the store, in order, beside its result.
  Every throw inside the \<^verbatim>\<open>try\<close> block ends in the \<^verbatim>\<open>catch\<close> block, which returns the
  failure object.
\<close>

definition getRecommendations_traced ::
  "regexp_constructor \<Rightarrow> store \<Rightarrow> preferences \<Rightarrow> order_entry list
     \<Rightarrow> query list \<times> recommendation_result" where
  "getRecommendations_traced RegExp find_items preferences customerHistory =
     (case primary_query RegExp preferences of
        Inl e \<Rightarrow> ([], failed_result)
      | Inr query \<Rightarrow>
          (case find_items query recommendation_sort 10 of
             Inl e \<Rightarrow> ([query], failed_result)
           | Inr recommendations \<Rightarrow>
               if length recommendations = 0
               then
                 (let query2 = relaxed_query preferences
                  in case find_items query2 recommendation_sort 10 of
                       Inl e \<Rightarrow> ([query, query2], failed_result)
                     | Inr recommendations \<Rightarrow>
                         ([query, query2],
                          ranked_result preferences customerHistory recommendations))
               else ([query], ranked_result preferences customerHistory recommendations)))"

definition getRecommendations ::
  "regexp_constructor \<Rightarrow> store \<Rightarrow> preferences \<Rightarrow> order_entry list \<Rightarrow> recommendation_result" where
  "getRecommendations RegExp find_items preferences customerHistory =
     snd (getRecommendations_traced RegExp find_items preferences customerHistory)"

text \<open>
  A constructor for closed examples: \<^verbatim>\<open>new RegExp(p, 'i')\<close> for the patterns that are
  built of ordinary characters and the wild card \<^verbatim>\<open>.\<close> only. An ordinary character
  matches itself in either case, \<^verbatim>\<open>.\<close> matches every character but a line break, and
  the test succeeds when the pattern matches somewhere in the string. Patterns with
  other syntax characters are outside this fragment, which answers them with an error.
\<close>

definition syntax_characters :: "char list" where
  "syntax_characters = [CHR 0x5C, CHR ''^'', CHR ''$'', CHR ''.'', CHR ''*'', CHR ''+'',
     CHR ''?'', CHR ''('', CHR '')'', CHR ''['', CHR '']'', CHR ''{'', CHR ''}'', CHR ''|'']"

definition pattern_char_matches :: "char \<Rightarrow> char \<Rightarrow> bool" where
  "pattern_char_matches p c =
     (if p = CHR ''.'' then c \<noteq> CHR 0x0A \<and> c \<noteq> CHR 0x0D else lower_char p = lower_char c)"

fun matches_here :: "string \<Rightarrow> string \<Rightarrow> bool" where
  "matches_here [] s = True"
| "matches_here (p # ps) [] = False"
| "matches_here (p # ps) (c # cs) = (pattern_char_matches p c \<and> matches_here ps cs)"

fun matches_somewhere :: "string \<Rightarrow> string \<Rightarrow> bool" where
  "matches_somewhere p [] = matches_here p []"
| "matches_somewhere p (c # cs) = (matches_here p (c # cs) \<or> matches_somewhere p cs)"

definition simple_RegExp :: regexp_constructor where
  "simple_RegExp p =
     (if list_all (\<lambda>c. c = CHR ''.'' \<or> c \<notin> set syntax_characters) p
      then Inr (matches_somewhere p) else Inl SyntaxError)"

text \<open>
  The words of the specification for the preferred-ingredient list: an item contains
  at least one ingredient whose name contains one of the preferred strings as a
  case-insensitive substring.
\<close>

fun is_prefix :: "string \<Rightarrow> string \<Rightarrow> bool" where
  "is_prefix [] s = True"
| "is_prefix (p # ps) [] = False"
| "is_prefix (p # ps) (c # cs) = (p = c \<and> is_prefix ps cs)"

fun is_substring :: "string \<Rightarrow> string \<Rightarrow> bool" where
  "is_substring p [] = is_prefix p []"
| "is_substring p (c # cs) = (is_prefix p (c # cs) \<or> is_substring p cs)"

definition contains_ci :: "string \<Rightarrow> string \<Rightarrow> bool" where
  "contains_ci p s = is_substring (toLowerCase p) (toLowerCase s)"

definition has_preferred_ingredient :: "string list \<Rightarrow> menu_item \<Rightarrow> bool" where
  "has_preferred_ingredient preferred item =
     list_ex (\<lambda>ing. list_ex (\<lambda>p. contains_ci p (ing_name ing)) preferred)
       (item_ingredients item)"

text \<open>An item the primary filter of the preferences admits.\<close>

definition admits :: "regexp_constructor \<Rightarrow> preferences \<Rightarrow> menu_item \<Rightarrow> bool" where
  "admits RegExp preferences item =
     (case primary_query RegExp preferences of Inl e \<Rightarrow> False | Inr q \<Rightarrow> matches q item)"

subsection \<open>The primary filter\<close>

text \<open>
  The primary query without its regular expressions, key by key: the value the
  statements of \<open>primary_query\<close> leave in each key.
\<close>

definition static_query :: "preferences \<Rightarrow> query" where
  "static_query prefs =
     \<lparr>q_availability = Some ''available'',
      q_vegetarian = (if d_vegetarian (dietary prefs) then Some True else None),
      q_vegan = (if d_vegan (dietary prefs) then Some True else None),
      q_glutenFree = (if d_glutenFree (dietary prefs) then Some True else None),
      q_dairyFree = (if d_dairyFree (dietary prefs) then Some True else None),
      q_price = Some \<lparr>gte = pr_min (priceRange prefs), lte = pr_max (priceRange prefs)\<rparr>,
      q_category = (case category prefs of None \<Rightarrow> None
                    | Some c \<Rightarrow> if c \<noteq> [] then Some c else None),
      q_spicy = (if spiceLevel prefs = ''mild'' then Some False
                 else if spiceLevel prefs = ''hot'' \<or> spiceLevel prefs = ''extra-hot''
                 then Some True else None),
      q_allergens_nin = (if allergies prefs \<noteq> [] then Some (allergies prefs) else None),
      q_ingredient_name_in = None\<rparr>"

text \<open>A conditional assignment to a key is an assignment of a conditional value.\<close>

lemma if_update:
  "(if b then q\<lparr>q_vegetarian := Some v\<rparr> else q) = q\<lparr>q_vegetarian := (if b then Some v else q_vegetarian q)\<rparr>"
  "(if b then q\<lparr>q_vegan := Some v\<rparr> else q) = q\<lparr>q_vegan := (if b then Some v else q_vegan q)\<rparr>"
  "(if b then q\<lparr>q_glutenFree := Some v\<rparr> else q) = q\<lparr>q_glutenFree := (if b then Some v else q_glutenFree q)\<rparr>"
  "(if b then q\<lparr>q_dairyFree := Some v\<rparr> else q) = q\<lparr>q_dairyFree := (if b then Some v else q_dairyFree q)\<rparr>"
  "(if b then q\<lparr>q_category := Some c\<rparr> else q) = q\<lparr>q_category := (if b then Some c else q_category q)\<rparr>"
  "(if b then q\<lparr>q_allergens_nin := Some xs\<rparr> else q) = q\<lparr>q_allergens_nin := (if b then Some xs else q_allergens_nin q)\<rparr>"
  "(if b then q\<lparr>q_spicy := Some v\<rparr> else if b' then q\<lparr>q_spicy := Some v'\<rparr> else q)
     = q\<lparr>q_spicy := (if b then Some v else if b' then Some v' else q_spicy q)\<rparr>"
  by simp_all

lemma case_update:
  "(case co of None \<Rightarrow> q | Some c \<Rightarrow> q\<lparr>q_category := f c\<rparr>)
    = q\<lparr>q_category := (case co of None \<Rightarrow> q_category q | Some c \<Rightarrow> f c)\<rparr>"
  by (simp split: option.splits)

lemma primary_query_chain:
  "(let query = base_query;
          query = (if d_vegetarian (dietary preferences)
                   then query\<lparr>q_vegetarian := Some True\<rparr> else query);
          query = (if d_vegan (dietary preferences)
                   then query\<lparr>q_vegan := Some True\<rparr> else query);
          query = (if d_glutenFree (dietary preferences)
                   then query\<lparr>q_glutenFree := Some True\<rparr> else query);
          query = (if d_dairyFree (dietary preferences)
                   then query\<lparr>q_dairyFree := Some True\<rparr> else query);
          query = query\<lparr>q_price := Some \<lparr>gte = pr_min (priceRange preferences),
                                           lte = pr_max (priceRange preferences)\<rparr>\<rparr>;
          query = (case category preferences of
                     None \<Rightarrow> query
                   | Some c \<Rightarrow> if c \<noteq> [] then query\<lparr>q_category := Some c\<rparr> else query);
          query = (if spiceLevel preferences = ''mild'' then query\<lparr>q_spicy := Some False\<rparr>
                   else if spiceLevel preferences = ''hot''
                          \<or> spiceLevel preferences = ''extra-hot''
                   then query\<lparr>q_spicy := Some True\<rparr> else query);
          query = (if length (allergies preferences) > 0
                   then query\<lparr>q_allergens_nin := Some (allergies preferences)\<rparr> else query)
      in F query) = F (static_query preferences)"
  unfolding Let_def if_update case_update
  by (simp add: static_query_def base_query_def split del: if_split cong: if_cong option.case_cong)

lemma primary_query_static:
  "primary_query RegExp prefs =
     (if length (ingredients prefs) > 0 
      then (case map_throwing RegExp (ingredients prefs) of
              Inl e \<Rightarrow> Inl e
            | Inr res \<Rightarrow> Inr ((static_query prefs)\<lparr>q_ingredient_name_in := Some res\<rparr>))
      else Inr (static_query prefs))"
  unfolding primary_query_def by (rule primary_query_chain)

text \<open>What each key of the primary query demands of an item.\<close>

lemma cond_flag: "cond (if b then Some True else None) (\<lambda>v. x = v) = (b \<longrightarrow> x)"
  by simp

lemma cond_spicy:
  "cond (if m then Some False else if h then Some True else None) (\<lambda>v. x = v)
     = ((m \<longrightarrow> \<not> x) \<and> (\<not> m \<and> h \<longrightarrow> x))"
  by simp

lemma cond_category:
  "cond (case co of None \<Rightarrow> None | Some c \<Rightarrow> if c \<noteq> [] then Some c else None) (\<lambda>c. x = c)
     = (case co of None \<Rightarrow> True | Some c \<Rightarrow> c \<noteq> [] \<longrightarrow> x = c)"
  by (simp split: option.splits)

lemma cond_nonempty: "cond (if xs \<noteq> [] then Some xs else None) P = (xs \<noteq> [] \<longrightarrow> P xs)"
  by simp

text \<open>
  The constraints as the specification words them: availability, every requested
  dietary flag, the spice level (\<^verbatim>\<open>'mild'\<close> not spicy, \<^verbatim>\<open>'hot'\<close> and \<^verbatim>\<open>'extra-hot'\<close> spicy,
  any other level nothing), the price within the inclusive range, and the category when
  one is given.
\<close>

definition meets_stated_constraints :: "preferences \<Rightarrow> menu_item \<Rightarrow> bool" where
  "meets_stated_constraints prefs item =
     (item_availability item = ''available''
      \<and> (d_vegetarian (dietary prefs) \<longrightarrow> vegetarian (item_dietary item))
      \<and> (d_vegan (dietary prefs) \<longrightarrow> vegan (item_dietary item))
      \<and> (d_glutenFree (dietary prefs) \<longrightarrow> glutenFree (item_dietary item))
      \<and> (d_dairyFree (dietary prefs) \<longrightarrow> dairyFree (item_dietary item))
      \<and> (spiceLevel prefs = ''mild'' \<longrightarrow> \<not> spicy (item_dietary item))
      \<and> (spiceLevel prefs = ''hot'' \<or> spiceLevel prefs = ''extra-hot''
            \<longrightarrow> spicy (item_dietary item))
      \<and> pr_min (priceRange prefs) \<le> item_price item
      \<and> item_price item \<le> pr_max (priceRange prefs)
      \<and> (case category prefs of
            None \<Rightarrow> True
          | Some c \<Rightarrow> c \<noteq> [] \<longrightarrow> item_category item = c))"

text \<open>No ingredient of the item carries an allergen tag of the list.\<close>

definition free_of_allergens :: "string list \<Rightarrow> menu_item \<Rightarrow> bool" where
  "free_of_allergens xs item =
     (\<not> list_ex (\<lambda>ing. list_ex (\<lambda>a. a \<in> set xs) (ing_allergens ing)) (item_ingredients item))"

lemma matches_static_query:
  "matches (static_query prefs) item =
     (meets_stated_constraints prefs item
      \<and> (allergies prefs \<noteq> [] \<longrightarrow> free_of_allergens (allergies prefs) item))"
proof -
  have spice: "(\<not> spiceLevel prefs = ''mild'' \<and>
        (spiceLevel prefs = ''hot'' \<or> spiceLevel prefs = ''extra-hot'') \<longrightarrow> X)
      = (spiceLevel prefs = ''hot'' \<or> spiceLevel prefs = ''extra-hot'' \<longrightarrow> X)" for X
    by auto
  show ?thesis
    unfolding matches_def static_query_def meets_stated_constraints_def free_of_allergens_def
    by (simp add: cond_flag cond_spicy cond_category cond_nonempty spice
        split del: if_split cong: if_cong) blast
qed

lemma matches_with_regexps:
  "matches (q\<lparr>q_ingredient_name_in := Some res\<rparr>) item =
     (matches (q\<lparr>q_ingredient_name_in := None\<rparr>) item
      \<and> list_ex (\<lambda>ing. list_ex (\<lambda>re. re (ing_name ing)) res) (item_ingredients item))"
  by (simp add: matches_def)

lemma static_query_no_regexps:
  "(static_query prefs)\<lparr>q_ingredient_name_in := None\<rparr> = static_query prefs"
  by (simp add: static_query_def)

lemma map_throwing_Inr:
  "map_throwing f xs = Inr ys \<Longrightarrow> list_all2 (\<lambda>x y. f x = Inr y) xs ys"
  by (induction xs arbitrary: ys) (auto split: sum.splits)

text \<open>
  Some ingredient of the item has a name that some preferred string, compiled as a
  case-insensitive regular expression, matches.
\<close>

definition has_matching_ingredient :: "regexp_constructor \<Rightarrow> string list \<Rightarrow> menu_item \<Rightarrow> bool" where
  "has_matching_ingredient RegExp preferred item =
     list_ex (\<lambda>ing. list_ex (\<lambda>p. case RegExp p of Inl e \<Rightarrow> False | Inr re \<Rightarrow> re (ing_name ing))
                       preferred)
       (item_ingredients item)"

lemma list_ex_compiled:
  "list_all2 (\<lambda>p re. RegExp p = Inr re) ps res \<Longrightarrow>
   list_ex (\<lambda>re. re s) res
     = list_ex (\<lambda>p. case RegExp p of Inl e \<Rightarrow> False | Inr re \<Rightarrow> re s) ps"
  by (induction rule: list_all2_induct) simp_all

lemma has_matching_ingredient_compiled:
  assumes "map_throwing RegExp ps = Inr res"
  shows "list_ex (\<lambda>ing. list_ex (\<lambda>re. re (ing_name ing)) res) (item_ingredients item)
     = has_matching_ingredient RegExp ps item"
  unfolding has_matching_ingredient_def
  by (simp add: list_ex_compiled [OF map_throwing_Inr [OF assms]])

lemma primary_query_Inr:
  assumes "primary_query RegExp prefs = Inr q"
  shows "(ingredients prefs = [] \<and> q = static_query prefs)
    \<or> (ingredients prefs \<noteq> []
        \<and> (\<exists>res. map_throwing RegExp (ingredients prefs) = Inr res
              \<and> q = (static_query prefs)\<lparr>q_ingredient_name_in := Some res\<rparr>))"
proof (cases "ingredients prefs = []")
  case True
  with assms show ?thesis by (simp add: primary_query_static)
next
  case False
  with assms show ?thesis by (simp add: primary_query_static split: sum.splits)
qed

lemma primary_query_cases:
  assumes "primary_query RegExp prefs = Inr q"
  obtains (plain) "ingredients prefs = []" "q = static_query prefs"
  | (regexps) res where "ingredients prefs \<noteq> []"
      "map_throwing RegExp (ingredients prefs) = Inr res"
      "q = (static_query prefs)\<lparr>q_ingredient_name_in := Some res\<rparr>"
  using primary_query_Inr [OF assms] by blast

lemma rankByAI_Nil: "rankByAI [] h = []"
  by (simp add: rankByAI_def rank_with_def split: sum.splits)

lemma ranked_result_Nil: "ranked_result prefs h [] = Success [] 0 prefs"
  by (simp add: ranked_result_def rankByAI_Nil)

lemma matches_relaxed_query:
  "matches (relaxed_query prefs) item =
     (item_availability item = ''available''
      \<and> (d_vegetarian (dietary prefs) \<or> d_vegan (dietary prefs)
            \<longrightarrow> vegetarian (item_dietary item)))"
  by (auto simp: matches_def relaxed_query_def base_query_def Let_def)

text \<open>
  On a pattern without syntax characters the fragment above is the case-insensitive
  substring test of the specification.
\<close>

lemma matches_here_literal:
  "list_all (\<lambda>c. c \<noteq> CHR ''.'') p \<Longrightarrow>
   matches_here p s = is_prefix (toLowerCase p) (toLowerCase s)"
proof (induction p arbitrary: s)
  case Nil
  show ?case by (simp add: toLowerCase_def)
next
  case (Cons c p)
  then show ?case
    by (cases s) (simp_all add: toLowerCase_def pattern_char_matches_def)
qed

lemma matches_somewhere_literal:
  "list_all (\<lambda>c. c \<noteq> CHR ''.'') p \<Longrightarrow> matches_somewhere p s = contains_ci p s"
  by (induction s) (simp_all add: contains_ci_def matches_here_literal, simp_all add: toLowerCase_def)

lemma simple_RegExp_literal:
  assumes "list_all (\<lambda>c. c \<notin> set syntax_characters) p"
  shows "simple_RegExp p = Inr (contains_ci p)"
proof -
  from assms have dots: "list_all (\<lambda>c. c \<noteq> CHR ''.'') p"
    by (induction p) (auto simp: syntax_characters_def)
  from assms have "list_all (\<lambda>c. c = CHR ''.'' \<or> c \<notin> set syntax_characters) p"
    by (induction p) auto
  moreover have "matches_somewhere p = contains_ci p"
    using matches_somewhere_literal [OF dots] by (intro ext)
  ultimately show ?thesis by (simp add: simple_RegExp_def)
qed

subsection \<open>Example data\<close>

text \<open>
  The two items and the preferences of the example in the specification (a vegetarian
  item priced 18.99, a non-vegetarian item priced 15.00, and the preferences
  \<^verbatim>\<open>{dietary: {vegetarian: true}, priceRange: {min: 10, max: 25}}\<close>), and variations.
\<close>

definition garden_salad :: menu_item where
  "garden_salad =
     \<lparr>item_name = ''Garden Salad'', item_category = ''salad'', item_price = 18.99,
      item_ingredients = [\<lparr>ing_name = ''Tomato'', ing_allergens = []\<rparr>,
                          \<lparr>ing_name = ''Salt'', ing_allergens = []\<rparr>],
      item_dietary = \<lparr>vegetarian = True, vegan = False, glutenFree = True, dairyFree = True,
                      spicy = False\<rparr>,
      item_availability = ''available'', item_rating = \<lparr>average = 0, rcount = 0\<rparr>,
      item_popularity = 0\<rparr>"

definition beef_burger :: menu_item where
  "beef_burger =
     \<lparr>item_name = ''Beef Burger'', item_category = ''main'', item_price = 15,
      item_ingredients = [\<lparr>ing_name = ''Beef'', ing_allergens = []\<rparr>,
                          \<lparr>ing_name = ''Bun'', ing_allergens = [''gluten'']\<rparr>],
      item_dietary = \<lparr>vegetarian = False, vegan = False, glutenFree = False, dairyFree = True,
                      spicy = False\<rparr>,
      item_availability = ''available'', item_rating = \<lparr>average = 0, rcount = 0\<rparr>,
      item_popularity = 0\<rparr>"

definition lamb_curry :: menu_item where
  "lamb_curry = beef_burger\<lparr>item_name := ''Lamb Curry'', item_rating := \<lparr>average = 4, rcount = 1\<rparr>,
             item_popularity := 5\<rparr>"

definition pasta :: menu_item where
  "pasta = beef_burger\<lparr>item_name := ''Pasta'', item_rating := \<lparr>average = 4, rcount = 2\<rparr>,
             item_popularity := 1\<rparr>"

definition any_food :: preferences where
  "any_food =
     \<lparr>dietary = \<lparr>d_vegetarian = False, d_vegan = False, d_glutenFree = False,
                  d_dairyFree = False\<rparr>,
      allergies = [], spiceLevel = ''medium'', priceRange = \<lparr>pr_min = 0, pr_max = 100\<rparr>,
      category = None, ingredients = []\<rparr>"

definition vegetarian_10_25 :: preferences where
  "vegetarian_10_25 =
     any_food\<lparr>dietary := (dietary any_food)\<lparr>d_vegetarian := True\<rparr>,
              priceRange := \<lparr>pr_min = 10, pr_max = 25\<rparr>\<rparr>"

definition nut_free_tomato :: preferences where
  "nut_free_tomato = any_food\<lparr>allergies := [''nuts''], ingredients := [''tom'']\<rparr>"

definition any_ingredient :: preferences where
  "any_ingredient = any_food\<lparr>ingredients := [''.'']\<rparr>"

text \<open>
  The order the specification words for the candidate list: descending by rating
  average, then descending by popularity.
\<close>

definition claimed_order :: "menu_item list \<Rightarrow> bool" where
  "claimed_order xs =
     sorted_wrt (\<lambda>x y. average (item_rating x) > average (item_rating y)
                  \<or> (average (item_rating x) = average (item_rating y)
                      \<and> item_popularity x \<ge> item_popularity y)) xs"

subsection \<open>What the primary filter requires\<close>



subsection \<open>Allergies and preferred ingredients\<close>

text \<open>
  Claim C7 as stated fails: the preferred-ingredient strings are compiled as regular
  expressions, not compared as substrings. For the preferred string \<^verbatim>\<open>'.'\<close> the filter
  admits the salad, none of whose ingredient names contains a full stop.
\<close>

theorem wildcard_ingredient_counterexample:
  "admits simple_RegExp any_ingredient garden_salad
   \<and> \<not> has_preferred_ingredient (ingredients any_ingredient) garden_salad"
proof -
  have "primary_query simple_RegExp any_ingredient
     = Inr ((static_query any_ingredient)
              \<lparr>q_ingredient_name_in := Some [matches_somewhere ''.'']\<rparr>)"
    by (simp add: primary_query_static any_ingredient_def any_food_def simple_RegExp_def
        syntax_characters_def)
  moreover have "matches ((static_query any_ingredient)
              \<lparr>q_ingredient_name_in := Some [matches_somewhere ''.'']\<rparr>) garden_salad"
    by (simp add: matches_def static_query_def any_ingredient_def any_food_def
        garden_salad_def pattern_char_matches_def)
  ultimately have "admits simple_RegExp any_ingredient garden_salad"
    by (simp add: admits_def)
  moreover have "\<not> has_preferred_ingredient (ingredients any_ingredient) garden_salad"
    by (simp add: has_preferred_ingredient_def any_ingredient_def any_food_def
        garden_salad_def contains_ci_def toLowerCase_def lower_char_def)
  ultimately show ?thesis by simp
qed

text \<open>
  Claim C7, amended. For every preferences input for which the primary filter is built:
  with a non-empty allergy list, the filter selects no item that has an ingredient
  carrying an allergen tag of the list; with a non-empty preferred-ingredient list,
  the filter selects, among the items that pass its other keys, exactly those with at
  least one ingredient whose name is matched by one of the preferred strings read as a
  case-insensitive regular expression.
\<close>

theorem allergen_and_ingredient_filter:
  assumes "primary_query RegExp prefs = Inr q"
  shows "(allergies prefs \<noteq> [] \<longrightarrow> matches q item
            \<longrightarrow> free_of_allergens (allergies prefs) item)
    \<and> (ingredients prefs \<noteq> [] \<longrightarrow>
         matches q item =
           (matches (q\<lparr>q_ingredient_name_in := None\<rparr>) item
            \<and> has_matching_ingredient RegExp (ingredients prefs) item))"
  using assms
proof (cases rule: primary_query_cases)
  case plain
  then show ?thesis by (simp add: matches_static_query)
next
  case (regexps res)
  then show ?thesis
    by (simp add: matches_with_regexps static_query_no_regexps matches_static_query
        has_matching_ingredient_compiled)
qed

theorem allergen_and_ingredient_filter_witness:
  "primary_query simple_RegExp nut_free_tomato
     = Inr ((static_query nut_free_tomato)
              \<lparr>q_ingredient_name_in := Some [matches_somewhere ''tom'']\<rparr>)
   \<and> allergies nut_free_tomato \<noteq> [] \<and> ingredients nut_free_tomato \<noteq> []
   \<and> matches ((static_query nut_free_tomato)
              \<lparr>q_ingredient_name_in := Some [matches_somewhere ''tom'']\<rparr>) garden_salad
   \<and> free_of_allergens (allergies nut_free_tomato) garden_salad
   \<and> has_matching_ingredient simple_RegExp (ingredients nut_free_tomato) garden_salad"
proof -
  have pq: "primary_query simple_RegExp nut_free_tomato
     = Inr ((static_query nut_free_tomato)
              \<lparr>q_ingredient_name_in := Some [matches_somewhere ''tom'']\<rparr>)"
    by (simp add: primary_query_static nut_free_tomato_def any_food_def simple_RegExp_def
        syntax_characters_def)
  have a: "allergies nut_free_tomato \<noteq> []" and i: "ingredients nut_free_tomato \<noteq> []"
    by (simp_all add: nut_free_tomato_def)
  have m: "matches ((static_query nut_free_tomato)
              \<lparr>q_ingredient_name_in := Some [matches_somewhere ''tom'']\<rparr>) garden_salad"
    by (simp add: matches_def static_query_def nut_free_tomato_def any_food_def
        garden_salad_def pattern_char_matches_def lower_char_def)
  from allergen_and_ingredient_filter [OF pq, of garden_salad] a i m pq show ?thesis
    by blast
qed

subsection \<open>The relaxed retry\<close>

text \<open>
  Claim C1. For every preferences input, if the primary filter yields zero candidates,
  \<^verbatim>\<open>getRecommendations\<close> sends exactly one more query, the relaxed one: availability
  \<^verbatim>\<open>'available'\<close>, plus \<^verbatim>\<open>dietary.vegetarian = true\<close> when vegetarian or vegan was
  requested, and no other key (no allergy, ingredient, spice, category or price
  constraint). The result is built from the answer to the relaxed query, and if that
  answer is empty too the caller receives the successful result with an empty
  recommendation list, not an error.
\<close>

theorem single_relaxed_retry:
  assumes "primary_query RegExp prefs = Inr q"
    and "find_items q recommendation_sort 10 = Inr []"
  shows "fst (getRecommendations_traced RegExp find_items prefs h) = [q, relaxed_query prefs]
    \<and> relaxed_query prefs =
        base_query\<lparr>q_vegetarian :=
          (if d_vegetarian (dietary prefs) \<or> d_vegan (dietary prefs) then Some True else None)\<rparr>
    \<and> matches (relaxed_query prefs) item =
        (item_availability item = ''available''
         \<and> (d_vegetarian (dietary prefs) \<or> d_vegan (dietary prefs)
               \<longrightarrow> vegetarian (item_dietary item)))
    \<and> (find_items (relaxed_query prefs) recommendation_sort 10 = Inr []
         \<longrightarrow> getRecommendations RegExp find_items prefs h = Success [] 0 prefs)
    \<and> (\<forall>recs. find_items (relaxed_query prefs) recommendation_sort 10 = Inr recs
         \<longrightarrow> getRecommendations RegExp find_items prefs h = ranked_result prefs h recs)"
proof -
  have trace: "fst (getRecommendations_traced RegExp find_items prefs h) = [q, relaxed_query prefs]"
    using assms by (simp add: getRecommendations_traced_def Let_def split: sum.splits)
  have relaxed: "relaxed_query prefs =
        base_query\<lparr>q_vegetarian :=
          (if d_vegetarian (dietary prefs) \<or> d_vegan (dietary prefs) then Some True else None)\<rparr>"
    by (simp add: relaxed_query_def base_query_def)
  have result: "getRecommendations RegExp find_items prefs h = ranked_result prefs h recs"
    if "find_items (relaxed_query prefs) recommendation_sort 10 = Inr recs" for recs
    using assms that by (simp add: getRecommendations_def getRecommendations_traced_def Let_def)
  from result [of "[]"] have empty:
    "find_items (relaxed_query prefs) recommendation_sort 10 = Inr []
       \<longrightarrow> getRecommendations RegExp find_items prefs h = Success [] 0 prefs"
    by (simp add: ranked_result_Nil)
  from trace relaxed empty result matches_relaxed_query [of prefs item] show ?thesis
    by blast
qed

theorem single_relaxed_retry_witness:
  "primary_query simple_RegExp vegetarian_10_25 = Inr (static_query vegetarian_10_25)
   \<and> catalog_store [beef_burger] (static_query vegetarian_10_25) recommendation_sort 10 = Inr []
   \<and> catalog_store [beef_burger] (relaxed_query vegetarian_10_25) recommendation_sort 10
       = Inr []
   \<and> fst (getRecommendations_traced simple_RegExp (catalog_store [beef_burger])
            vegetarian_10_25 [])
       = [static_query vegetarian_10_25, relaxed_query vegetarian_10_25]
   \<and> getRecommendations simple_RegExp (catalog_store [beef_burger]) vegetarian_10_25 []
       = Success [] 0 vegetarian_10_25"
proof -
  have pq: "primary_query simple_RegExp vegetarian_10_25 = Inr (static_query vegetarian_10_25)"
    by (simp add: primary_query_static vegetarian_10_25_def any_food_def)
  have p: "catalog_store [beef_burger] (static_query vegetarian_10_25) recommendation_sort 10
      = Inr []"
    by (simp add: catalog_store_def matches_def static_query_def vegetarian_10_25_def
        any_food_def beef_burger_def)
  have r: "catalog_store [beef_burger] (relaxed_query vegetarian_10_25) recommendation_sort 10
      = Inr []"
    by (simp add: catalog_store_def matches_relaxed_query vegetarian_10_25_def
        any_food_def beef_burger_def)
  from single_relaxed_retry [of simple_RegExp vegetarian_10_25 "static_query vegetarian_10_25"
      "catalog_store [beef_burger]" "[]" beef_burger] pq p r show ?thesis
    by blast
qed

subsection \<open>The order of the candidates\<close>

text \<open>
  Claim C8. The claim: the candidate list is ordered
  descending by rating average, then descending by popularity. The code sorts by the
  key \<^verbatim>\<open>rating\<close>, the sub-document, where the other routes of the repository sort by
  \<^verbatim>\<open>'rating.average'\<close>: between two items with the same average the one with the higher
  rating count comes first, whatever their popularity. Here the curry (average 4,
  one rating, popularity 5) comes after the pasta (average 4, two ratings,
  popularity 1).
\<close>

theorem rating_count_breaks_ties_before_popularity:
  "getRecommendations simple_RegExp (catalog_store [lamb_curry, pasta]) any_food []
     = Success [pasta, lamb_curry] 2 any_food
   \<and> \<not> claimed_order [pasta, lamb_curry]
   \<and> claimed_order [lamb_curry, pasta]"
proof -
  have pq: "primary_query simple_RegExp any_food = Inr (static_query any_food)"
    by (simp add: primary_query_static any_food_def)
  have m: "matches (static_query any_food) lamb_curry" "matches (static_query any_food) pasta"
    by (simp_all add: matches_def static_query_def any_food_def lamb_curry_def pasta_def
        beef_burger_def)
  have t: "sort_tuple recommendation_sort lamb_curry = [- 4, - 1, - 5]"
    "sort_tuple recommendation_sort pasta = [- 4, - 2, - 1]"
    by (simp_all add: sort_tuple_def recommendation_sort_def lamb_curry_def pasta_def)
  have "catalog_store [lamb_curry, pasta] (static_query any_food) recommendation_sort 10
      = Inr [pasta, lamb_curry]"
    by (simp add: catalog_store_def m t)
  with pq have "getRecommendations simple_RegExp (catalog_store [lamb_curry, pasta]) any_food []
     = Success [pasta, lamb_curry] 2 any_food"
    by (simp add: getRecommendations_def getRecommendations_traced_def ranked_result_def)
  moreover have "\<not> claimed_order [pasta, lamb_curry]" "claimed_order [lamb_curry, pasta]"
    by (simp_all add: claimed_order_def lamb_curry_def pasta_def)
  ultimately show ?thesis by simp
qed


section \<open>Properties of the ranker\<close>

text \<open>Sorting a mapped list is mapping the sorted list.\<close>

lemma insort_key_map:
  "insort_key f (g x) (map g xs) = map g (insort_key (\<lambda>y. f (g y)) x xs)"
  by (induction xs) simp_all

lemma sort_key_map:
  "sort_key f (map g xs) = map g (sort_key (\<lambda>y. f (g y)) xs)"
  by (induction xs) (simp_all add: insort_key_map)

text \<open>
  The ranking is the stable sort of the candidates by descending score.
\<close>

lemma rank_with_sort_key:
  "rank_with a items = sort_key (\<lambda>item. - score_item a item) items"
  by (simp add: rank_with_def sort_key_map o_def)



lemma mset_rank_with: "mset (rank_with a items) = mset items"
  by (simp add: rank_with_sort_key)



text \<open>
  Example histories: one order of a burger and an ice cream, and an order without its
  \<^verbatim>\<open>items\<close> array.
\<close>

definition burger_and_ice_cream :: "order_entry list" where
  "burger_and_ice_cream =
     [\<lparr>order_items = Some
         [\<lparr>oi_menuItem = Some \<lparr>hm_category = Some ''main'',
                                hm_ingredients = Some [\<lparr>hi_name = Some ''Beef''\<rparr>,
                                                       \<lparr>hi_name = Some ''Bun''\<rparr>]\<rparr>,
           oi_price = 15\<rparr>,
          \<lparr>oi_menuItem = Some \<lparr>hm_category = Some ''dessert'',
                                hm_ingredients = Some [\<lparr>hi_name = Some ''Cream''\<rparr>]\<rparr>,
           oi_price = 6\<rparr>]\<rparr>]"


definition no_items_array :: "order_entry list" where
  "no_items_array = [\<lparr>order_items = None\<rparr>]"

lemma is_array_index_letter [simp]:
  "\<not> is_digit c \<Longrightarrow> \<not> is_array_index (c # cs)"
  by (simp add: is_array_index_def)


text \<open>
  Claim C4. For every candidate list and every customer history the output of
  \<^verbatim>\<open>rankByAI\<close> is a permutation of its input: no item is added, dropped or duplicated.
  If an error occurs during the analysis of the history, the output is the input list in
  its original order.
\<close>

theorem rankByAI_permutes:
  "mset (rankByAI items h) = mset items
   \<and> length (rankByAI items h) = length items
   \<and> (\<forall>e. analyzeCustomerHistory h = Inl e \<longrightarrow> rankByAI items h = items)"
proof -
  have m: "mset (rankByAI items h) = mset items"
    by (simp add: rankByAI_def mset_rank_with split: sum.splits)
  from mset_eq_length [OF m] have "length (rankByAI items h) = length items" .
  with m show ?thesis by (simp add: rankByAI_def)
qed

theorem rankByAI_permutes_witness:
  "analyzeCustomerHistory no_items_array = Inl TypeError
   \<and> rankByAI [garden_salad, beef_burger] no_items_array = [garden_salad, beef_burger]
   \<and> mset (rankByAI [garden_salad, beef_burger] burger_and_ice_cream)
       = mset [garden_salad, beef_burger]"
proof -
  have e: "analyzeCustomerHistory no_items_array = Inl TypeError"
    by (simp add: analyzeCustomerHistory_def no_items_array_def count_categories_def
        over_items_def)
  from rankByAI_permutes [of "[garden_salad, beef_burger]" no_items_array] e
    rankByAI_permutes [of "[garden_salad, beef_burger]" burger_and_ice_cream]
  show ?thesis by simp
qed

section \<open>The signals derived from a history\<close>


























































section \<open>Scores and order of the ranked candidates\<close>



















end
